theory Spec2Isabelle
  imports Complex_Main "HOL-Library.AList"
begin

section \<open>Values exchanged with the service\<close>

text \<open>
  A parsed JSON document, as \<^verbatim>\<open>response.json()\<close> hands it to the client: Python's
  \<^verbatim>\<open>None\<close>, booleans, integers, strings, lists and dictionaries. A dictionary is an
  association list in insertion order with distinct keys. JSON numbers are restricted to
  integers; floating-point numbers are outside the model.
\<close>

datatype json =
    JNull
  | JBool bool
  | JInt int
  | JStr string
  | JList "json list"
  | JObj "(string \<times> json) list"

text \<open>
  The exceptions the module raises itself (\<^verbatim>\<open>FileNotFoundError\<close>, \<^verbatim>\<open>ValueError\<close>,
  \<^verbatim>\<open>Exception\<close>, \<^verbatim>\<open>TimeoutError\<close>), each with its message, and the ones the
  library calls it makes can raise on the modelled inputs: \<^verbatim>\<open>open\<close> on a directory
  or under a directory that is not there, \<^verbatim>\<open>response.json()\<close> on a body that is not
  JSON, \<^verbatim>\<open>.get\<close> on a value that is not a dictionary.
\<close>

datatype exc =
    FileNotFoundError string
  | ValueError string
  | Exception string
  | TimeoutError string
  | IsADirectoryError string
  | NotADirectoryError string
  | JSONDecodeError
  | AttributeError string

subsection \<open>Python's \<^verbatim>\<open>str\<close> of an integer\<close>

definition digit_char :: "nat \<Rightarrow> char" where
  "digit_char d = char_of (48 + d)"

fun str_nat :: "nat \<Rightarrow> string" where
  "str_nat n = (if n < 10 then [digit_char n] else str_nat (n div 10) @ [digit_char (n mod 10)])"

declare str_nat.simps [simp del]

definition str_int :: "int \<Rightarrow> string" where
  "str_int i = (if i < 0 then CHR ''-'' # str_nat (nat (- i)) else str_nat (nat i))"

subsection \<open>\<^verbatim>\<open>json.dumps\<close> with its default arguments\<close>

text \<open>
  Strings are sequences of code points below 256. With \<^verbatim>\<open>ensure_ascii\<close> (the
  default) every character outside the printable ASCII range, the double quote and the
  backslash are escaped; items are separated by a comma and a space, keys from values by
  a colon and a space.
\<close>

fun join :: "string \<Rightarrow> string list \<Rightarrow> string" where
  "join sep [] = []"
| "join sep [x] = x"
| "join sep (x # y # ys) = x @ sep @ join sep (y # ys)"

definition hex_char :: "nat \<Rightarrow> char" where
  "hex_char d = (if d < 10 then char_of (48 + d) else char_of (87 + d))"

definition json_escape_char :: "char \<Rightarrow> string" where
  "json_escape_char c =
     (let n = (of_char c :: nat) in
      if n = 34 then [CHR 0x5C, CHR 0x22]
      else if n = 92 then [CHR 0x5C, CHR 0x5C]
      else if n = 10 then [CHR 0x5C, CHR ''n'']
      else if n = 13 then [CHR 0x5C, CHR ''r'']
      else if n = 9 then [CHR 0x5C, CHR ''t'']
      else if n = 8 then [CHR 0x5C, CHR ''b'']
      else if n = 12 then [CHR 0x5C, CHR ''f'']
      else if n < 32 \<or> 126 < n
        then [CHR 0x5C, CHR ''u'', CHR ''0'', CHR ''0'', hex_char (n div 16), hex_char (n mod 16)]
      else [c])"

definition json_dumps_str :: "string \<Rightarrow> string" where
  "json_dumps_str s = [CHR 0x22] @ concat (map json_escape_char s) @ [CHR 0x22]"

fun json_dumps :: "json \<Rightarrow> string" where
  "json_dumps JNull = ''null''"
| "json_dumps (JBool b) = (if b then ''true'' else ''false'')"
| "json_dumps (JInt i) = str_int i"
| "json_dumps (JStr s) = json_dumps_str s"
| "json_dumps (JList xs) = ''['' @ join '', '' (map json_dumps xs) @ '']''"
| "json_dumps (JObj kvs) =
     ''{'' @ join '', '' (map (\<lambda>kv. json_dumps_str (fst kv) @ '': '' @ json_dumps (snd kv)) kvs) @ ''}''"

subsection \<open>Python's \<^verbatim>\<open>str\<close> and \<^verbatim>\<open>repr\<close> of a parsed value\<close>

definition repr_escape_char :: "char \<Rightarrow> char \<Rightarrow> string" where
  "repr_escape_char q c =
     (let n = (of_char c :: nat) in
      if n = 92 then [CHR 0x5C, CHR 0x5C]
      else if c = q then [CHR 0x5C, q]
      else if n = 9 then [CHR 0x5C, CHR ''t'']
      else if n = 10 then [CHR 0x5C, CHR ''n'']
      else if n = 13 then [CHR 0x5C, CHR ''r'']
      else if n < 32 \<or> (127 \<le> n \<and> n \<le> 160) \<or> n = 173
        then [CHR 0x5C, CHR ''x'', hex_char (n div 16), hex_char (n mod 16)]
      else [c])"

definition repr_str :: "string \<Rightarrow> string" where
  "repr_str s =
     (let q = (if CHR 0x27 \<in> set s \<and> CHR 0x22 \<notin> set s then CHR 0x22 else CHR 0x27)
      in [q] @ concat (map (repr_escape_char q) s) @ [q])"

fun py_repr :: "json \<Rightarrow> string" where
  "py_repr JNull = ''None''"
| "py_repr (JBool b) = (if b then ''True'' else ''False'')"
| "py_repr (JInt i) = str_int i"
| "py_repr (JStr s) = repr_str s"
| "py_repr (JList xs) = ''['' @ join '', '' (map py_repr xs) @ '']''"
| "py_repr (JObj kvs) =
     ''{'' @ join '', '' (map (\<lambda>kv. repr_str (fst kv) @ '': '' @ py_repr (snd kv)) kvs) @ ''}''"

text \<open>What an f-string puts in place of \<^verbatim>\<open>{v}\<close>: a string as it is, anything else as its \<^verbatim>\<open>repr\<close>.\<close>

fun py_str :: "json \<Rightarrow> string" where
  "py_str (JStr s) = s"
| "py_str v = py_repr v"

text \<open>\<^verbatim>\<open>d.get(k)\<close>: the value under the key, \<^verbatim>\<open>None\<close> when the key is missing.\<close>

fun py_get :: "json \<Rightarrow> string \<Rightarrow> exc + json" where
  "py_get (JObj kvs) k = Inr (case map_of kvs k of None \<Rightarrow> JNull | Some v \<Rightarrow> v)"
| "py_get v k = Inl (AttributeError k)"

subsection \<open>\<^verbatim>\<open>pathlib.Path\<close>, POSIX flavour\<close>

text \<open>
  \<^verbatim>\<open>Path(p)\<close> drops empty and \<^verbatim>\<open>.\<close> components; \<^verbatim>\<open>name\<close> is the last component
  left, \<^verbatim>\<open>suffix\<close> the part of the name from its last dot on, when that dot is neither
  the first nor the last character of the name. \<^verbatim>\<open>str.lower\<close> is modelled on code points
  below 256.
\<close>

fun split_on :: "char \<Rightarrow> string \<Rightarrow> string list" where
  "split_on c [] = [[]]"
| "split_on c (x # xs) =
     (if x = c then [] # split_on c xs
      else (case split_on c xs of [] \<Rightarrow> [[x]] | y # ys \<Rightarrow> (x # y) # ys))"

definition path_parts :: "string \<Rightarrow> string list" where
  "path_parts p = filter (\<lambda>x. x \<noteq> [] \<and> x \<noteq> ''.'') (split_on CHR ''/'' p)"

definition path_root :: "string \<Rightarrow> string" where
  "path_root p =
     (if take 2 p = ''//'' \<and> take 3 p \<noteq> ''///'' then ''//''
      else if take 1 p = ''/'' then ''/'' else [])"

definition path_str :: "string \<Rightarrow> string" where
  "path_str p = (let s = path_root p @ join ''/'' (path_parts p) in if s = [] then ''.'' else s)"

definition path_name :: "string \<Rightarrow> string" where
  "path_name p = (case path_parts p of [] \<Rightarrow> [] | q # qs \<Rightarrow> last (q # qs))"

definition path_suffix :: "string \<Rightarrow> string" where
  "path_suffix p =
     (let name = path_name p in
      if CHR ''.'' \<notin> set name then []
      else
        let i = length name - 1 - length (takeWhile (\<lambda>c. c \<noteq> CHR ''.'') (rev name))
        in if 0 < i \<and> i < length name - 1 then drop i name else [])"

definition path_parent :: "string \<Rightarrow> string" where
  "path_parent p =
     (let s = path_root p @ join ''/'' (butlast (path_parts p)) in if s = [] then ''.'' else s)"

definition lower_char :: "char \<Rightarrow> char" where
  "lower_char c =
     (let n = (of_char c :: nat) in
      if (65 \<le> n \<and> n \<le> 90) \<or> (192 \<le> n \<and> n \<le> 222 \<and> n \<noteq> 215) then char_of (n + 32) else c)"

definition lower :: "string \<Rightarrow> string" where
  "lower s = map lower_char s"

section \<open>The world outside the client\<close>

text \<open>
  The client talks to a filesystem, a clock and an HTTP service. The world records the
  files (a path is a regular file with its bytes, a directory, or absent), the clock in
  integral ticks of the unit in which \<^verbatim>\<open>timeout\<close> and \<^verbatim>\<open>poll_interval\<close> are given,
  the answer the service gives to the \<open>n\<close>-th request of the run (any behaviour of the
  service on a given run is such a sequence), and the requests sent so far. A response
  has its status code, its body (\<^verbatim>\<open>response.text\<close>), the body parsed as JSON
  (\<open>None\<close> when it is not JSON, where \<^verbatim>\<open>response.json()\<close> raises) and the time the
  exchange took. Transport failures are outside the model.
\<close>

datatype node = File string | Dir

record response =
  status_code :: int
  resp_text :: string
  json_body :: "json option"
  elapsed :: nat

datatype payload =
    Multipart "(string \<times> string \<times> string \<times> string) list" "(string \<times> string) list"
  | JsonBody json
  | NoBody

record request =
  req_method :: string
  req_url :: string
  req_headers :: "(string \<times> string) list"
  req_payload :: payload
  req_stream :: bool

record world =
  fs :: "string \<Rightarrow> node option"
  clock :: int
  net :: "nat \<Rightarrow> response"
  sent :: "request list"

type_synonym 'a io = "world \<Rightarrow> (exc + 'a) \<times> world"

definition http_exchange :: "request \<Rightarrow> world \<Rightarrow> response \<times> world" where
  "http_exchange rq w =
     (let r = net w (length (sent w))
      in (r, w\<lparr>clock := clock w + int (elapsed r), sent := sent w @ [rq]\<rparr>))"

definition post_req :: "string \<Rightarrow> (string \<times> string) list \<Rightarrow> payload \<Rightarrow> request" where
  "post_req u hs pl =
     \<lparr>req_method = ''POST'', req_url = u, req_headers = hs, req_payload = pl, req_stream = False\<rparr>"

definition get_req :: "string \<Rightarrow> (string \<times> string) list \<Rightarrow> bool \<Rightarrow> request" where
  "get_req u hs st =
     \<lparr>req_method = ''GET'', req_url = u, req_headers = hs, req_payload = NoBody, req_stream = st\<rparr>"

definition requests_post ::
  "string \<Rightarrow> (string \<times> string) list \<Rightarrow> payload \<Rightarrow> world \<Rightarrow> response \<times> world" where
  "requests_post u hs pl w = http_exchange (post_req u hs pl) w"

definition requests_get ::
  "string \<Rightarrow> (string \<times> string) list \<Rightarrow> bool \<Rightarrow> world \<Rightarrow> response \<times> world" where
  "requests_get u hs st w = http_exchange (get_req u hs st) w"

definition response_json :: "response \<Rightarrow> exc + json" where
  "response_json r = (case json_body r of None \<Rightarrow> Inl JSONDecodeError | Some j \<Rightarrow> Inr j)"

definition time_time :: "world \<Rightarrow> int" where
  "time_time w = clock w"

definition time_sleep :: "int \<Rightarrow> unit io" where
  "time_sleep secs w =
     (if secs < 0 then (Inl (ValueError ''sleep length must be non-negative''), w)
      else (Inr (), w\<lparr>clock := clock w + secs\<rparr>))"

definition path_exists :: "world \<Rightarrow> string \<Rightarrow> bool" where
  "path_exists w p = (fs w (path_str p) \<noteq> None)"

definition open_rb :: "string \<Rightarrow> world \<Rightarrow> exc + string" where
  "open_rb p w =
     (case fs w p of
        None \<Rightarrow> Inl (FileNotFoundError p)
      | Some Dir \<Rightarrow> Inl (IsADirectoryError p)
      | Some (File bs) \<Rightarrow> Inr bs)"

text \<open>
  \<^verbatim>\<open>open(p, 'wb')\<close> creates the file or truncates it, in a directory that has to be
  there; \<^verbatim>\<open>f.write\<close> appends to it. Files are kept under their normalised path, so
  that two spellings of a path name one file; the working directory is the path \<^verbatim>\<open>.\<close>.
\<close>

definition open_wb :: "string \<Rightarrow> unit io" where
  "open_wb p w =
     (if p = [] then (Inl (FileNotFoundError p), w)
      else
        (case fs w (path_parent p) of
           None \<Rightarrow> (Inl (FileNotFoundError p), w)
         | Some (File bs) \<Rightarrow> (Inl (NotADirectoryError p), w)
         | Some Dir \<Rightarrow>
             (case fs w (path_str p) of
                Some Dir \<Rightarrow> (Inl (IsADirectoryError p), w)
              | _ \<Rightarrow> (Inr (), w\<lparr>fs := (fs w)(path_str p \<mapsto> File [])\<rparr>))))"

definition file_write :: "string \<Rightarrow> string \<Rightarrow> world \<Rightarrow> world" where
  "file_write p chunk w =
     (case fs w (path_str p) of
        Some (File bs) \<Rightarrow> w\<lparr>fs := (fs w)(path_str p \<mapsto> File (bs @ chunk))\<rparr>
      | _ \<Rightarrow> w)"

text \<open>\<^verbatim>\<open>response.iter_content(chunk_size)\<close>: the body in pieces of at most that many bytes.\<close>

function iter_content :: "nat \<Rightarrow> string \<Rightarrow> string list" where
  "iter_content n bs =
     (if n = 0 \<or> bs = [] then [] else take n bs # iter_content n (drop n bs))"
  by pat_completeness auto
termination
  by (relation "measure (\<lambda>(n, bs). length bs)") auto

declare iter_content.simps [simp del]

section \<open>The client: \<^verbatim>\<open>SunoMIDIUploader\<close>\<close>

record uploader =
  api_key :: string
  base_url :: string
  headers :: "(string \<times> string) list"

definition init :: "string \<Rightarrow> string \<Rightarrow> uploader" where
  "init key base =
     \<lparr>api_key = key, base_url = base,
      headers = [(''Authorization'', ''Bearer '' @ key), (''Content-Type'', ''application/json'')]\<rparr>"

definition default_base_url :: string where
  "default_base_url = ''https://api.suno.ai/v1''"

text \<open>Truthiness of an optional string and of an optional list, as \<^verbatim>\<open>if title:\<close> tests it.\<close>

fun truthy :: "'a list option \<Rightarrow> bool" where
  "truthy None = False"
| "truthy (Some xs) = (xs \<noteq> [])"

subsection \<open>\<^verbatim>\<open>upload_midi\<close>\<close>

definition upload_midi ::
  "uploader \<Rightarrow> string \<Rightarrow> string option \<Rightarrow> string option \<Rightarrow> json list option \<Rightarrow> json io" where
  "upload_midi self midi_path title style tags w =
     (if \<not> path_exists w midi_path
        then (Inl (FileNotFoundError (''MIDI file not found: '' @ midi_path)), w)
      else if lower (path_suffix midi_path) \<notin> set [''.mid'', ''.midi'']
        then (Inl (ValueError ''File must be a MIDI file (.mid or .midi)''), w)
      else
        (case open_rb (path_str midi_path) w of
           Inl e \<Rightarrow> (Inl e, w)
         | Inr midi_data \<Rightarrow>
             let files = [(''midi_file'', (path_name midi_path, midi_data, ''audio/midi''))];
                 data = [];
                 data = (if truthy title then AList.update ''title'' (the title) data else data);
                 data = (if truthy style then AList.update ''style'' (the style) data else data);
                 data = (if truthy tags
                         then AList.update ''tags'' (json_dumps (JList (the tags))) data else data);
                 upload_url = base_url self @ ''/uploads/midi'';
                 upload_headers = [(''Authorization'', ''Bearer '' @ api_key self)];
                 (response, w1) = requests_post upload_url upload_headers (Multipart files data) w
             in if status_code response \<noteq> 200
                  then (Inl (Exception (''Upload failed: '' @ str_int (status_code response)
                                          @ '' - '' @ resp_text response)), w1)
                else (response_json response, w1)))"

subsection \<open>\<^verbatim>\<open>generate_from_midi\<close>\<close>

definition generate_from_midi ::
  "uploader \<Rightarrow> string \<Rightarrow> string option \<Rightarrow> string \<Rightarrow> int \<Rightarrow> json io" where
  "generate_from_midi self midi_path prompt style duration w =
     (case upload_midi self midi_path None None None w of
        (Inl e, w1) \<Rightarrow> (Inl e, w1)
      | (Inr upload_result, w1) \<Rightarrow>
          (case py_get upload_result ''midi_id'' of
             Inl e \<Rightarrow> (Inl e, w1)
           | Inr midi_id \<Rightarrow>
               let generate_url = base_url self @ ''/generate'';
                   payload = [(''midi_id'', midi_id), (''style'', JStr style),
                              (''duration'', JInt duration)];
                   payload = (if truthy prompt
                              then AList.update ''prompt'' (JStr (the prompt)) payload else payload);
                   (response, w2) = requests_post generate_url (headers self) (JsonBody (JObj payload)) w1
               in if status_code response \<noteq> 200
                    then (Inl (Exception (''Generation failed: '' @ str_int (status_code response)
                                            @ '' - '' @ resp_text response)), w2)
                  else (response_json response, w2)))"

subsection \<open>\<^verbatim>\<open>get_generation_status\<close>\<close>

definition get_generation_status :: "uploader \<Rightarrow> string \<Rightarrow> json io" where
  "get_generation_status self job_id w =
     (let status_url = base_url self @ ''/generations/'' @ job_id;
          (response, w1) = requests_get status_url (headers self) False w
      in if status_code response \<noteq> 200
           then (Inl (Exception (''Status check failed: '' @ str_int (status_code response)
                                   @ '' - '' @ resp_text response)), w1)
         else (response_json response, w1))"

subsection \<open>\<^verbatim>\<open>download_result\<close>\<close>

definition download_result :: "uploader \<Rightarrow> string \<Rightarrow> string \<Rightarrow> unit io" where
  "download_result self result_url output_path w =
     (let (response, w1) = requests_get result_url [] True w
      in if status_code response \<noteq> 200
           then (Inl (Exception (''Download failed: '' @ str_int (status_code response))), w1)
         else
           (case open_wb output_path w1 of
              (Inl e, w2) \<Rightarrow> (Inl e, w2)
            | (Inr u, w2) \<Rightarrow>
                (Inr (), foldl (\<lambda>wa chunk. file_write output_path chunk wa) w2
                           (iter_content 8192 (resp_text response)))))"

subsection \<open>\<^verbatim>\<open>wait_for_completion\<close>\<close>

text \<open>
  The polling loop may run forever (a clock that stands still and a job that never
  finishes), so its model returns an option: \<open>None\<close> is the loop that does not return.
  \<^verbatim>\<open>time.sleep\<close> advances the clock by exactly the interval, an exchange with the service
  by the time the response reports.
\<close>

partial_function (option) wait_loop ::
  "uploader \<Rightarrow> string \<Rightarrow> int \<Rightarrow> int \<Rightarrow> int \<Rightarrow> world \<Rightarrow> ((exc + json) \<times> world) option" where
  "wait_loop self job_id timeout poll_interval start_time w =
     (if time_time w - start_time < timeout then
        (case get_generation_status self job_id w of
           (Inl e, w1) \<Rightarrow> Some (Inl e, w1)
         | (Inr status, w1) \<Rightarrow>
             (case py_get status ''status'' of
                Inl e \<Rightarrow> Some (Inl e, w1)
              | Inr s \<Rightarrow>
                  if s = JStr ''completed'' then Some (Inr status, w1)
                  else if s = JStr ''failed'' then
                    (case py_get status ''error'' of
                       Inl e \<Rightarrow> Some (Inl e, w1)
                     | Inr err \<Rightarrow> Some (Inl (Exception (''Generation failed: '' @ py_str err)), w1))
                  else
                    (case time_sleep poll_interval w1 of
                       (Inl e, w2) \<Rightarrow> Some (Inl e, w2)
                     | (Inr u, w2) \<Rightarrow> wait_loop self job_id timeout poll_interval start_time w2)))
      else Some (Inl (TimeoutError (''Generation did not complete within '' @ str_int timeout
                                     @ '' seconds'')), w))"

declare wait_loop.simps [code]

definition wait_for_completion ::
  "uploader \<Rightarrow> string \<Rightarrow> int \<Rightarrow> int \<Rightarrow> world \<Rightarrow> ((exc + json) \<times> world) option" where
  "wait_for_completion self job_id timeout poll_interval w =
     (let start_time = time_time w
      in wait_loop self job_id timeout poll_interval start_time w)"

section \<open>Vocabulary of the properties\<close>

text \<open>The request a status check sends, and the world right after one status check.\<close>

definition status_request :: "uploader \<Rightarrow> string \<Rightarrow> request" where
  "status_request self job_id = get_req (base_url self @ ''/generations/'' @ job_id) (headers self) False"

definition after_poll :: "uploader \<Rightarrow> string \<Rightarrow> world \<Rightarrow> world" where
  "after_poll self job_id w =
     w\<lparr>clock := clock w + int (elapsed (net w (length (sent w)))),
       sent := sent w @ [status_request self job_id]\<rparr>"

text \<open>
  \<open>reports r status s\<close>: the response \<open>r\<close> is a successful status check whose parsed
  payload is \<open>status\<close> and whose \<^verbatim>\<open>status.get('status')\<close> is \<open>s\<close>. A response is
  non-terminal when it is such a check and \<open>s\<close> is neither of the two terminal strings.
\<close>

definition reports :: "response \<Rightarrow> json \<Rightarrow> json \<Rightarrow> bool" where
  "reports r status s =
     (status_code r = 200 \<and> response_json r = Inr status \<and> py_get status ''status'' = Inr s)"

definition non_terminal :: "response \<Rightarrow> bool" where
  "non_terminal r =
     (status_code r = 200 \<and>
      (case response_json r of
         Inl e \<Rightarrow> False
       | Inr status \<Rightarrow>
           (case py_get status ''status'' of
              Inl e \<Rightarrow> False
            | Inr s \<Rightarrow> s \<noteq> JStr ''completed'' \<and> s \<noteq> JStr ''failed'')))"

definition timeout_message :: "int \<Rightarrow> string" where
  "timeout_message timeout = ''Generation did not complete within '' @ str_int timeout @ '' seconds''"

subsection \<open>Concrete runs\<close>

definition ex_client :: uploader where
  "ex_client = init ''secret'' default_base_url"

definition ex_response :: "int \<Rightarrow> string \<Rightarrow> json option \<Rightarrow> response" where
  "ex_response code body j = \<lparr>status_code = code, resp_text = body, json_body = j, elapsed = 0\<rparr>"

definition ex_payload :: "string \<Rightarrow> json" where
  "ex_payload s =
     JObj [(''status'', JStr s), (''error'', JStr ''out of credits''),
           (''audio_url'', JStr ''https://cdn.suno.ai/a.mp3'')]"

definition ex_poll :: "string \<Rightarrow> response" where
  "ex_poll s = ex_response 200 ''{}'' (Some (ex_payload s))"

text \<open>Three scripts of the service: running, running, completed; running, failed; running forever.\<close>

definition ex_rrc :: "nat \<Rightarrow> response" where
  "ex_rrc n = (if n < 2 then ex_poll ''running'' else ex_poll ''completed'')"

definition ex_rf :: "nat \<Rightarrow> response" where
  "ex_rf n = (if n < 1 then ex_poll ''running'' else ex_poll ''failed'')"

definition ex_running :: "nat \<Rightarrow> response" where
  "ex_running n = ex_poll ''running''"

text \<open>A job whose first status has no \<^verbatim>\<open>status\<close> field and whose second is completed.\<close>

definition ex_unnamed_then_completed :: "nat \<Rightarrow> response" where
  "ex_unnamed_then_completed n =
     (if n < 1 then ex_response 200 ''{}'' (Some (JObj [(''progress'', JInt 40)]))
      else ex_poll ''completed'')"

text \<open>A service that accepts everything without naming a MIDI id, and two that answer 404.\<close>

definition ex_accepting :: "nat \<Rightarrow> response" where
  "ex_accepting n = ex_response 200 ''{}'' (Some (JObj [(''ok'', JBool True)]))"

definition ex_expired :: "nat \<Rightarrow> response" where
  "ex_expired n = ex_response 404 ''link expired'' None"

definition ex_gone :: "nat \<Rightarrow> response" where
  "ex_gone n = ex_response 404 ''no such object'' None"

definition ex_world :: "(nat \<Rightarrow> response) \<Rightarrow> world" where
  "ex_world script =
     \<lparr>fs = (Map.empty(''.'' \<mapsto> Dir, ''song.mid'' \<mapsto> File ''MThd'',
                         ''notes.txt'' \<mapsto> File ''hello'', ''out.mp3'' \<mapsto> File ''old'')),
      clock = 1000, net = script, sent = []\<rparr>"

section \<open>The polling loop, one iteration at a time\<close>

lemma get_generation_status_eq:
  "get_generation_status self job_id w =
     (let r = net w (length (sent w)) in
      (if status_code r \<noteq> 200
       then Inl (Exception (''Status check failed: '' @ str_int (status_code r) @ '' - '' @ resp_text r))
       else response_json r, after_poll self job_id w))"
  by (simp add: get_generation_status_def requests_get_def http_exchange_def after_poll_def
      status_request_def Let_def)

lemma non_terminal_iff:
  "non_terminal r \<longleftrightarrow>
     (\<exists>status s. reports r status s \<and> s \<noteq> JStr ''completed'' \<and> s \<noteq> JStr ''failed'')"
  by (auto simp: non_terminal_def reports_def split: sum.splits)

lemma wait_loop_poll_again:
  assumes "clock w - start_time < timeout"
    and "non_terminal (net w (length (sent w)))"
    and "0 \<le> poll_interval"
  shows "wait_loop self job_id timeout poll_interval start_time w =
         wait_loop self job_id timeout poll_interval start_time
           ((after_poll self job_id w)\<lparr>clock := clock (after_poll self job_id w) + poll_interval\<rparr>)"
  using assms
  by (subst wait_loop.simps)
     (auto simp: get_generation_status_eq time_time_def time_sleep_def non_terminal_def Let_def
           split: sum.splits)

lemma wait_loop_completed:
  assumes "clock w - start_time < timeout"
    and "reports (net w (length (sent w))) status (JStr ''completed'')"
  shows "wait_loop self job_id timeout poll_interval start_time w =
         Some (Inr status, after_poll self job_id w)"
  using assms
  by (subst wait_loop.simps)
     (simp add: get_generation_status_eq time_time_def reports_def Let_def)

lemma wait_loop_failed:
  assumes "clock w - start_time < timeout"
    and "reports (net w (length (sent w))) status (JStr ''failed'')"
    and "py_get status ''error'' = Inr err"
  shows "wait_loop self job_id timeout poll_interval start_time w =
         Some (Inl (Exception (''Generation failed: '' @ py_str err)), after_poll self job_id w)"
  using assms
  by (subst wait_loop.simps)
     (simp add: get_generation_status_eq time_time_def reports_def Let_def)

lemma wait_loop_deadline:
  assumes "\<not> clock w - start_time < timeout"
  shows "wait_loop self job_id timeout poll_interval start_time w =
         Some (Inl (TimeoutError (timeout_message timeout)), w)"
  using assms
  by (subst wait_loop.simps) (simp add: time_time_def timeout_message_def)

lemma running_non_terminal:
  "reports r status (JStr ''running'') \<Longrightarrow> non_terminal r"
  by (auto simp: non_terminal_iff)

lemma after_poll_simps [simp]:
  "sent (after_poll self job_id w) = sent w @ [status_request self job_id]"
  "clock (after_poll self job_id w) = clock w + int (elapsed (net w (length (sent w))))"
  "net (after_poll self job_id w) = net w"
  "fs (after_poll self job_id w) = fs w"
  by (simp_all add: after_poll_def)

text \<open>
  C2. When the service answers the first three status checks with running, running,
  completed, the poll interval is 0 and the deadline is not reached before the third
  check (the first two exchanges take less than \<open>timeout\<close>), \<^verbatim>\<open>wait_for_completion\<close>
  returns the parsed payload of the third response, having sent exactly three status
  requests.
\<close>

theorem wait_for_completion_running_running_completed:
  assumes r1: "reports (net w (length (sent w))) s1 (JStr ''running'')"
    and r2: "reports (net w (length (sent w) + 1)) s2 (JStr ''running'')"
    and r3: "reports (net w (length (sent w) + 2)) s3 (JStr ''completed'')"
    and time: "int (elapsed (net w (length (sent w)))) + int (elapsed (net w (length (sent w) + 1)))
                 < timeout"
  shows "\<exists>w'. wait_for_completion self job_id timeout 0 w = Some (Inr s3, w')
              \<and> sent w' = sent w @ replicate 3 (status_request self job_id)
              \<and> fs w' = fs w"
proof -
  define rq where "rq = status_request self job_id"
  define w1 where "w1 = (after_poll self job_id w)\<lparr>clock := clock (after_poll self job_id w) + 0\<rparr>"
  define w2 where "w2 = (after_poll self job_id w1)\<lparr>clock := clock (after_poll self job_id w1) + 0\<rparr>"
  have sent1: "sent w1 = sent w @ [rq]" and net1: "net w1 = net w"
    and clock1: "clock w1 = clock w + int (elapsed (net w (length (sent w))))"
    by (simp_all add: w1_def rq_def)
  have sent2: "sent w2 = sent w @ [rq, rq]" and net2: "net w2 = net w"
    and clock2: "clock w2 = clock w + int (elapsed (net w (length (sent w))))
                              + int (elapsed (net w (length (sent w) + 1)))"
    by (simp_all add: w2_def sent1 net1 clock1 rq_def)
  have step1: "wait_loop self job_id timeout 0 (clock w) w = wait_loop self job_id timeout 0 (clock w) w1"
    unfolding w1_def using time running_non_terminal [OF r1]
    by (intro wait_loop_poll_again) simp_all
  have step2: "wait_loop self job_id timeout 0 (clock w) w1 = wait_loop self job_id timeout 0 (clock w) w2"
    unfolding w2_def using time running_non_terminal [OF r2]
    by (intro wait_loop_poll_again) (simp_all add: sent1 net1 clock1)
  have step3: "wait_loop self job_id timeout 0 (clock w) w2 = Some (Inr s3, after_poll self job_id w2)"
    using time r3 by (intro wait_loop_completed) (simp_all add: sent2 net2 clock2)
  have "wait_for_completion self job_id timeout 0 w = Some (Inr s3, after_poll self job_id w2)"
    by (simp add: wait_for_completion_def time_time_def step1 step2 step3)
  moreover have "sent (after_poll self job_id w2) = sent w @ replicate 3 rq"
    by (simp add: sent2 rq_def numeral_3_eq_3)
  moreover have "fs (after_poll self job_id w2) = fs w"
    by (simp add: w2_def w1_def)
  ultimately show ?thesis unfolding rq_def by blast
qed

theorem wait_for_completion_running_running_completed_witness:
  "reports (net (ex_world ex_rrc) (length (sent (ex_world ex_rrc))))
     (ex_payload ''running'') (JStr ''running'')
   \<and> reports (net (ex_world ex_rrc) (length (sent (ex_world ex_rrc)) + 1))
     (ex_payload ''running'') (JStr ''running'')
   \<and> reports (net (ex_world ex_rrc) (length (sent (ex_world ex_rrc)) + 2))
     (ex_payload ''completed'') (JStr ''completed'')
   \<and> int (elapsed (net (ex_world ex_rrc) (length (sent (ex_world ex_rrc)))))
       + int (elapsed (net (ex_world ex_rrc) (length (sent (ex_world ex_rrc)) + 1))) < 300
   \<and> (\<exists>w'. wait_for_completion ex_client ''job-1'' 300 0 (ex_world ex_rrc)
               = Some (Inr (ex_payload ''completed''), w')
            \<and> sent w' = sent (ex_world ex_rrc) @ replicate 3 (status_request ex_client ''job-1'')
            \<and> fs w' = fs (ex_world ex_rrc))"
proof -
  have h1: "reports (net (ex_world ex_rrc) (length (sent (ex_world ex_rrc))))
              (ex_payload ''running'') (JStr ''running'')"
    by (simp add: ex_world_def ex_rrc_def ex_poll_def ex_response_def ex_payload_def
        reports_def response_json_def)
  have h2: "reports (net (ex_world ex_rrc) (length (sent (ex_world ex_rrc)) + 1))
              (ex_payload ''running'') (JStr ''running'')"
    by (simp add: ex_world_def ex_rrc_def ex_poll_def ex_response_def ex_payload_def
        reports_def response_json_def)
  have h3: "reports (net (ex_world ex_rrc) (length (sent (ex_world ex_rrc)) + 2))
              (ex_payload ''completed'') (JStr ''completed'')"
    by (simp add: ex_world_def ex_rrc_def ex_poll_def ex_response_def ex_payload_def
        reports_def response_json_def)
  have h4: "int (elapsed (net (ex_world ex_rrc) (length (sent (ex_world ex_rrc)))))
       + int (elapsed (net (ex_world ex_rrc) (length (sent (ex_world ex_rrc)) + 1))) < 300"
    by (simp add: ex_world_def ex_rrc_def ex_poll_def ex_response_def)
  from wait_for_completion_running_running_completed [OF h1 h2 h3 h4, of ex_client "''job-1''"]
  show ?thesis using h1 h2 h3 h4 by blast
qed

text \<open>
  C3. When the service answers the first status check with running and the second with
  failed, the poll interval is not negative and the deadline is not reached before the
  second check, \<^verbatim>\<open>wait_for_completion\<close> raises the exception whose message carries the
  \<^verbatim>\<open>error\<close> field of the second payload, having sent exactly two status requests.
\<close>

theorem wait_for_completion_running_failed:
  assumes r1: "reports (net w (length (sent w))) s1 (JStr ''running'')"
    and r2: "reports (net w (length (sent w) + 1)) s2 (JStr ''failed'')"
    and err: "py_get s2 ''error'' = Inr err"
    and pi: "0 \<le> poll_interval"
    and time: "int (elapsed (net w (length (sent w)))) + poll_interval < timeout"
  shows "\<exists>w'. wait_for_completion self job_id timeout poll_interval w
                 = Some (Inl (Exception (''Generation failed: '' @ py_str err)), w')
              \<and> sent w' = sent w @ replicate 2 (status_request self job_id)"
proof -
  define w1 where
    "w1 = (after_poll self job_id w)\<lparr>clock := clock (after_poll self job_id w) + poll_interval\<rparr>"
  have sent1: "sent w1 = sent w @ [status_request self job_id]" and net1: "net w1 = net w"
    and clock1: "clock w1 = clock w + int (elapsed (net w (length (sent w)))) + poll_interval"
    by (simp_all add: w1_def)
  have "clock w - clock w < timeout"
    using time pi by simp
  then have step1: "wait_loop self job_id timeout poll_interval (clock w) w
                  = wait_loop self job_id timeout poll_interval (clock w) w1"
    unfolding w1_def using pi running_non_terminal [OF r1]
    by (intro wait_loop_poll_again)
  have step2: "wait_loop self job_id timeout poll_interval (clock w) w1
             = Some (Inl (Exception (''Generation failed: '' @ py_str err)), after_poll self job_id w1)"
    using time r2 err by (intro wait_loop_failed [where status = s2]) (simp_all add: sent1 net1 clock1)
  have "wait_for_completion self job_id timeout poll_interval w
          = Some (Inl (Exception (''Generation failed: '' @ py_str err)), after_poll self job_id w1)"
    by (simp add: wait_for_completion_def time_time_def step1 step2)
  moreover have "sent (after_poll self job_id w1) = sent w @ replicate 2 (status_request self job_id)"
    by (simp add: sent1 numeral_2_eq_2)
  ultimately show ?thesis by blast
qed

theorem wait_for_completion_running_failed_witness:
  "reports (net (ex_world ex_rf) (length (sent (ex_world ex_rf)))) (ex_payload ''running'') (JStr ''running'')
   \<and> reports (net (ex_world ex_rf) (length (sent (ex_world ex_rf)) + 1)) (ex_payload ''failed'') (JStr ''failed'')
   \<and> py_get (ex_payload ''failed'') ''error'' = Inr (JStr ''out of credits'')
   \<and> (0::int) \<le> 5
   \<and> int (elapsed (net (ex_world ex_rf) (length (sent (ex_world ex_rf))))) + 5 < 300
   \<and> (\<exists>w'. wait_for_completion ex_client ''job-1'' 300 5 (ex_world ex_rf)
               = Some (Inl (Exception (''Generation failed: '' @ py_str (JStr ''out of credits''))), w')
            \<and> sent w' = sent (ex_world ex_rf) @ replicate 2 (status_request ex_client ''job-1''))"
proof -
  have h1: "reports (net (ex_world ex_rf) (length (sent (ex_world ex_rf))))
              (ex_payload ''running'') (JStr ''running'')"
    by (simp add: ex_world_def ex_rf_def ex_poll_def ex_response_def ex_payload_def
        reports_def response_json_def)
  have h2: "reports (net (ex_world ex_rf) (length (sent (ex_world ex_rf)) + 1))
              (ex_payload ''failed'') (JStr ''failed'')"
    by (simp add: ex_world_def ex_rf_def ex_poll_def ex_response_def ex_payload_def
        reports_def response_json_def)
  have h3: "py_get (ex_payload ''failed'') ''error'' = Inr (JStr ''out of credits'')"
    by (simp add: ex_payload_def)
  have h4: "(0::int) \<le> 5" by simp
  have h5: "int (elapsed (net (ex_world ex_rf) (length (sent (ex_world ex_rf))))) + 5 < 300"
    by (simp add: ex_world_def ex_rf_def ex_poll_def ex_response_def)
  from wait_for_completion_running_failed [OF h1 h2 h3 h4 h5, of ex_client "''job-1''"]
  show ?thesis using h1 h2 h3 h4 h5 by blast
qed

section \<open>The deadline\<close>

text \<open>
  While the service keeps answering with non-terminal statuses and the interval is
  positive, each iteration moves the clock by at least the interval, so the loop reaches
  the deadline. The number \<open>m\<close> of status requests satisfies \<open>(m - 1) * poll_interval <\<close>
  the time that was left.
\<close>

lemma wait_loop_gives_up:
  assumes pi: "0 < poll_interval"
    and nt: "\<forall>k\<ge>length (sent w). non_terminal (net w k)"
  shows "\<exists>w' m. wait_loop self job_id timeout poll_interval start_time w
                   = Some (Inl (TimeoutError (timeout_message timeout)), w')
               \<and> sent w' = sent w @ replicate m (status_request self job_id)
               \<and> net w' = net w \<and> fs w' = fs w
               \<and> timeout \<le> clock w' - start_time
               \<and> (m = 0 \<or> (int m - 1) * poll_interval < timeout - (clock w - start_time))"
  using nt
proof (induction "nat (timeout - (clock w - start_time))" arbitrary: w rule: less_induct)
  case less
  show ?case
  proof (cases "clock w - start_time < timeout")
    case False
    then have "wait_loop self job_id timeout poll_interval start_time w
                 = Some (Inl (TimeoutError (timeout_message timeout)), w)"
      by (rule wait_loop_deadline)
    moreover have "sent w = sent w @ replicate 0 (status_request self job_id)" by simp
    moreover have "timeout \<le> clock w - start_time" using False by simp
    ultimately show ?thesis by blast
  next
    case True
    define w1 where
      "w1 = (after_poll self job_id w)\<lparr>clock := clock (after_poll self job_id w) + poll_interval\<rparr>"
    have sent1: "sent w1 = sent w @ [status_request self job_id]" and net1: "net w1 = net w"
      and fs1: "fs w1 = fs w"
      and clock1: "clock w1 = clock w + int (elapsed (net w (length (sent w)))) + poll_interval"
      by (simp_all add: w1_def)
    have here: "non_terminal (net w (length (sent w)))"
      using less.prems by simp
    have step: "wait_loop self job_id timeout poll_interval start_time w
              = wait_loop self job_id timeout poll_interval start_time w1"
      unfolding w1_def using True here pi by (intro wait_loop_poll_again) simp_all
    have smaller: "nat (timeout - (clock w1 - start_time)) < nat (timeout - (clock w - start_time))"
      using True pi by (simp add: clock1)
    have nt1: "\<forall>k\<ge>length (sent w1). non_terminal (net w1 k)"
      using less.prems by (simp add: sent1 net1)
    from less.hyps [OF smaller nt1] obtain w' m where
      res: "wait_loop self job_id timeout poll_interval start_time w1
              = Some (Inl (TimeoutError (timeout_message timeout)), w')"
      and sent': "sent w' = sent w1 @ replicate m (status_request self job_id)"
      and keep: "net w' = net w1" "fs w' = fs w1"
      and late: "timeout \<le> clock w' - start_time"
      and count: "m = 0 \<or> (int m - 1) * poll_interval < timeout - (clock w1 - start_time)"
      by blast
    have "sent w' = sent w @ replicate (Suc m) (status_request self job_id)"
      by (simp add: sent' sent1)
    moreover have "(int (Suc m) - 1) * poll_interval < timeout - (clock w - start_time)"
    proof (cases "m = 0")
      case True
      with \<open>clock w - start_time < timeout\<close> show ?thesis by simp
    next
      case False
      with count have "(int m - 1) * poll_interval < timeout - (clock w1 - start_time)" by simp
      then have "int m * poll_interval - poll_interval
                   < timeout - (clock w - start_time) - int (elapsed (net w (length (sent w)))) - poll_interval"
        by (simp add: clock1 algebra_simps)
      then show ?thesis by simp
    qed
    ultimately show ?thesis
      using res late keep by (auto simp: step net1 fs1 simp del: replicate_Suc)
  qed
qed

text \<open>
  C4. When every answer of the service is non-terminal, the poll interval is positive and
  the timeout is not negative, \<^verbatim>\<open>wait_for_completion\<close> returns: it raises
  \<^verbatim>\<open>TimeoutError\<close>, at a time when at least \<open>timeout\<close> has passed since the call, after
  at most \<open>\<lceil>timeout / poll_interval\<rceil> + 1\<close> status requests.
\<close>

theorem wait_for_completion_times_out:
  assumes pi: "0 < poll_interval"
    and tm: "0 \<le> timeout"
    and nt: "\<forall>k\<ge>length (sent w). non_terminal (net w k)"
  shows "\<exists>w' m. wait_for_completion self job_id timeout poll_interval w
                   = Some (Inl (TimeoutError (timeout_message timeout)), w')
               \<and> sent w' = sent w @ replicate m (status_request self job_id)
               \<and> timeout \<le> clock w' - clock w
               \<and> int m \<le> \<lceil>real_of_int timeout / real_of_int poll_interval\<rceil> + 1"
proof -
  from wait_loop_gives_up [OF pi nt, of self job_id timeout "clock w"] obtain w' m where
    res: "wait_loop self job_id timeout poll_interval (clock w) w
            = Some (Inl (TimeoutError (timeout_message timeout)), w')"
    and sent': "sent w' = sent w @ replicate m (status_request self job_id)"
    and late: "timeout \<le> clock w' - clock w"
    and count: "m = 0 \<or> (int m - 1) * poll_interval < timeout - (clock w - clock w)"
    by blast
  have "int m \<le> \<lceil>real_of_int timeout / real_of_int poll_interval\<rceil>"
  proof (cases "m = 0")
    case True
    have "0 \<le> real_of_int timeout / real_of_int poll_interval"
      using pi tm by simp
    then have "0 \<le> \<lceil>real_of_int timeout / real_of_int poll_interval\<rceil>"
      by simp
    with True show ?thesis by simp
  next
    case False
    with count have "(int m - 1) * poll_interval < timeout" by simp
    then have "real_of_int ((int m - 1) * poll_interval) < real_of_int timeout"
      by linarith
    then have "real_of_int (int m - 1) < real_of_int timeout / real_of_int poll_interval"
      using pi by (simp add: pos_less_divide_eq)
    then have "int m - 1 < \<lceil>real_of_int timeout / real_of_int poll_interval\<rceil>"
      by (simp add: less_ceiling_iff)
    then show ?thesis by simp
  qed
  then have "int m \<le> \<lceil>real_of_int timeout / real_of_int poll_interval\<rceil> + 1" by simp
  with res sent' late show ?thesis
    unfolding wait_for_completion_def time_time_def Let_def by blast
qed


theorem wait_for_completion_times_out_witness:
  "(0::int) < 1 \<and> (0::int) \<le> 1
   \<and> non_terminal (net (ex_world ex_running) (length (sent (ex_world ex_running))))
   \<and> (\<exists>w' m. wait_for_completion ex_client ''job-1'' 1 1 (ex_world ex_running)
                   = Some (Inl (TimeoutError (timeout_message 1)), w')
               \<and> sent w' = sent (ex_world ex_running) @ replicate m (status_request ex_client ''job-1'')
               \<and> 1 \<le> clock w' - clock (ex_world ex_running)
               \<and> int m \<le> \<lceil>real_of_int 1 / real_of_int 1\<rceil> + 1)"
proof -
  have h1: "(0::int) < 1" and h2: "(0::int) \<le> 1" by simp_all
  have h3: "\<forall>k\<ge>length (sent (ex_world ex_running)). non_terminal (net (ex_world ex_running) k)"
    by (simp add: ex_world_def ex_running_def ex_poll_def ex_response_def ex_payload_def
        non_terminal_def response_json_def)
  from wait_for_completion_times_out [OF h1 h2 h3, of ex_client "''job-1''"]
  show ?thesis using h1 h2 h3 by blast
qed

text \<open>
  The interval has to be positive for this: with an interval of 0, answers that take no
  time and a job that never finishes, the clock stands still and the loop does not return.
\<close>

lemma wait_loop_stands_still:
  assumes quiet: "\<forall>k. non_terminal (net w k) \<and> elapsed (net w k) = 0"
    and early: "clock w - start_time < timeout"
  shows "wait_loop self job_id timeout 0 start_time w = None"
proof (rule ccontr)
  assume "wait_loop self job_id timeout 0 start_time w \<noteq> None"
  then obtain y where y: "wait_loop self job_id timeout 0 start_time w = Some y"
    by blast
  have "\<not> ((0::int) = 0 \<and> (\<forall>k. non_terminal (net w k) \<and> elapsed (net w k) = 0)
            \<and> clock w - start_time < timeout)"
  proof (rule wait_loop.raw_induct
      [where P = "\<lambda>self job_id timeout poll_interval start_time w y.
         \<not> (poll_interval = 0 \<and> (\<forall>k. non_terminal (net w k) \<and> elapsed (net w k) = 0)
            \<and> clock w - start_time < timeout)", OF _ y])
    fix loop :: "uploader \<Rightarrow> string \<Rightarrow> int \<Rightarrow> int \<Rightarrow> int \<Rightarrow> world \<Rightarrow> ((exc + json) \<times> world) option"
    fix self job_id timeout poll_interval start_time w y
    assume IH: "\<And>self job_id timeout poll_interval start_time w y.
        loop self job_id timeout poll_interval start_time w = Some y \<Longrightarrow>
        \<not> (poll_interval = 0 \<and> (\<forall>k. non_terminal (net w k) \<and> elapsed (net w k) = 0)
            \<and> clock w - start_time < timeout)"
    assume body: "(if time_time w - start_time < timeout then
        (case get_generation_status self job_id w of
           (Inl e, w1) \<Rightarrow> Some (Inl e, w1)
         | (Inr status, w1) \<Rightarrow>
             (case py_get status ''status'' of
                Inl e \<Rightarrow> Some (Inl e, w1)
              | Inr s \<Rightarrow>
                  if s = JStr ''completed'' then Some (Inr status, w1)
                  else if s = JStr ''failed'' then
                    (case py_get status ''error'' of
                       Inl e \<Rightarrow> Some (Inl e, w1)
                     | Inr err \<Rightarrow> Some (Inl (Exception (''Generation failed: '' @ py_str err)), w1))
                  else
                    (case time_sleep poll_interval w1 of
                       (Inl e, w2) \<Rightarrow> Some (Inl e, w2)
                     | (Inr u, w2) \<Rightarrow> loop self job_id timeout poll_interval start_time w2)))
      else Some (Inl (TimeoutError (''Generation did not complete within '' @ str_int timeout
                                     @ '' seconds'')), w)) = Some y"
    show "\<not> (poll_interval = 0 \<and> (\<forall>k. non_terminal (net w k) \<and> elapsed (net w k) = 0)
            \<and> clock w - start_time < timeout)"
    proof
      assume inv: "poll_interval = 0 \<and> (\<forall>k. non_terminal (net w k) \<and> elapsed (net w k) = 0)
                     \<and> clock w - start_time < timeout"
      define w2 where "w2 = after_poll self job_id w"
      have nt: "non_terminal (net w (length (sent w)))"
        using inv by blast
      from nt obtain status s where
        ok: "status_code (net w (length (sent w))) = 200"
          "response_json (net w (length (sent w))) = Inr status"
          "py_get status ''status'' = Inr s"
        and other: "s \<noteq> JStr ''completed''" "s \<noteq> JStr ''failed''"
        by (auto simp: non_terminal_iff reports_def)
      have early: "clock w - start_time < timeout" and zero: "poll_interval = 0"
        using inv by simp_all
      have "loop self job_id timeout poll_interval start_time w2 = Some y"
        using body ok other early zero
        by (simp add: get_generation_status_eq time_time_def time_sleep_def Let_def w2_def
            after_poll_def)
      from IH [OF this] have "\<not> (poll_interval = 0
            \<and> (\<forall>k. non_terminal (net w2 k) \<and> elapsed (net w2 k) = 0)
            \<and> clock w2 - start_time < timeout)" .
      moreover have "net w2 = net w" "clock w2 = clock w"
        using inv by (simp_all add: w2_def)
      ultimately show False using inv by simp
    qed
  qed
  then show False using quiet early by simp
qed

section \<open>Statuses that are not terminal\<close>

text \<open>
  C5. A status check whose \<^verbatim>\<open>status\<close> field is anything but the string
  \<^verbatim>\<open>completed\<close> or the string \<^verbatim>\<open>failed\<close> (a missing field reads as \<^verbatim>\<open>None\<close>) does
  not end the wait: in an iteration that starts before the deadline, with a poll interval
  that is not negative and time left after the sleep, the loop sleeps once and polls again.
  When that next check reports completed, its payload is the result, exactly two status
  requests have been sent from that iteration on, and the clock has moved by the two
  exchanges and one interval. For the first iteration this is the result of
  \<^verbatim>\<open>wait_for_completion\<close> itself.
\<close>

theorem wait_for_completion_non_terminal_status_polls_again:
  assumes first: "reports (net w (length (sent w))) s1 s"
    and other: "s \<noteq> JStr ''completed''" "s \<noteq> JStr ''failed''"
    and second: "reports (net w (length (sent w) + 1)) s2 (JStr ''completed'')"
    and pi: "0 \<le> poll_interval"
    and early: "clock w - start_time < timeout"
    and time: "clock w - start_time + int (elapsed (net w (length (sent w)))) + poll_interval < timeout"
  shows "\<exists>w'. wait_loop self job_id timeout poll_interval start_time w = Some (Inr s2, w')
              \<and> (start_time = clock w \<longrightarrow>
                   wait_for_completion self job_id timeout poll_interval w = Some (Inr s2, w'))
              \<and> sent w' = sent w @ replicate 2 (status_request self job_id)
              \<and> clock w' = clock w + int (elapsed (net w (length (sent w)))) + poll_interval
                              + int (elapsed (net w (length (sent w) + 1)))
              \<and> fs w' = fs w"
proof -
  define w1 where
    "w1 = (after_poll self job_id w)\<lparr>clock := clock (after_poll self job_id w) + poll_interval\<rparr>"
  have sent1: "sent w1 = sent w @ [status_request self job_id]" and net1: "net w1 = net w"
    and fs1: "fs w1 = fs w"
    and clock1: "clock w1 = clock w + int (elapsed (net w (length (sent w)))) + poll_interval"
    by (simp_all add: w1_def)
  have nt: "non_terminal (net w (length (sent w)))"
    using first other by (auto simp: non_terminal_iff)
  have step1: "wait_loop self job_id timeout poll_interval start_time w
             = wait_loop self job_id timeout poll_interval start_time w1"
    unfolding w1_def using early nt pi by (rule wait_loop_poll_again)
  have step2: "wait_loop self job_id timeout poll_interval start_time w1
             = Some (Inr s2, after_poll self job_id w1)"
    using time second by (intro wait_loop_completed) (simp_all add: sent1 net1 clock1)
  have run: "wait_loop self job_id timeout poll_interval start_time w
               = Some (Inr s2, after_poll self job_id w1)"
    by (simp add: step1 step2)
  have whole: "start_time = clock w \<longrightarrow>
      wait_for_completion self job_id timeout poll_interval w = Some (Inr s2, after_poll self job_id w1)"
    using run by (auto simp: wait_for_completion_def time_time_def)
  have trace: "sent (after_poll self job_id w1) = sent w @ replicate 2 (status_request self job_id)"
    by (simp add: sent1 numeral_2_eq_2)
  have at: "clock (after_poll self job_id w1) =
              clock w + int (elapsed (net w (length (sent w)))) + poll_interval
                + int (elapsed (net w (length (sent w) + 1)))"
    by (simp add: sent1 net1 clock1)
  have files: "fs (after_poll self job_id w1) = fs w"
    by (simp add: fs1)
  from run whole trace at files show ?thesis by blast
qed

theorem wait_for_completion_non_terminal_status_polls_again_witness:
  "reports (net (ex_world ex_unnamed_then_completed) (length (sent (ex_world ex_unnamed_then_completed))))
     (JObj [(''progress'', JInt 40)]) JNull
   \<and> JNull \<noteq> JStr ''completed'' \<and> JNull \<noteq> JStr ''failed''
   \<and> reports (net (ex_world ex_unnamed_then_completed)
                (length (sent (ex_world ex_unnamed_then_completed)) + 1))
        (ex_payload ''completed'') (JStr ''completed'')
   \<and> (0::int) \<le> 5
   \<and> clock (ex_world ex_unnamed_then_completed) - 1000 < 300
   \<and> clock (ex_world ex_unnamed_then_completed) - 1000
        + int (elapsed (net (ex_world ex_unnamed_then_completed)
                          (length (sent (ex_world ex_unnamed_then_completed))))) + 5 < 300
   \<and> (\<exists>w'. wait_loop ex_client ''job-1'' 300 5 1000 (ex_world ex_unnamed_then_completed)
               = Some (Inr (ex_payload ''completed''), w')
            \<and> wait_for_completion ex_client ''job-1'' 300 5 (ex_world ex_unnamed_then_completed)
               = Some (Inr (ex_payload ''completed''), w')
            \<and> sent w' = replicate 2 (status_request ex_client ''job-1'')
            \<and> clock w' = 1005)"
proof -
  let ?w = "ex_world ex_unnamed_then_completed"
  have h1: "reports (net ?w (length (sent ?w))) (JObj [(''progress'', JInt 40)]) JNull"
    by (simp add: ex_world_def ex_unnamed_then_completed_def ex_response_def reports_def
        response_json_def)
  have h2: "JNull \<noteq> JStr ''completed''" and h3: "JNull \<noteq> JStr ''failed''" by simp_all
  have h4: "reports (net ?w (length (sent ?w) + 1)) (ex_payload ''completed'') (JStr ''completed'')"
    by (simp add: ex_world_def ex_unnamed_then_completed_def ex_poll_def ex_response_def
        ex_payload_def reports_def response_json_def)
  have h5: "(0::int) \<le> 5" by simp
  have h6: "clock ?w - 1000 < 300" by (simp add: ex_world_def)
  have h7: "clock ?w - 1000 + int (elapsed (net ?w (length (sent ?w)))) + 5 < 300"
    by (simp add: ex_world_def ex_unnamed_then_completed_def ex_response_def)
  have start: "1000 = clock ?w" and none: "sent ?w = []"
    and quick: "elapsed (net ?w k) = 0" for k
    by (simp_all add: ex_world_def ex_unnamed_then_completed_def ex_poll_def ex_response_def)
  from wait_for_completion_non_terminal_status_polls_again
    [OF h1 h2 h3 h4 h5 h6 h7, of ex_client "''job-1''"]
  obtain w' where
    a: "wait_loop ex_client ''job-1'' 300 5 1000 ?w = Some (Inr (ex_payload ''completed''), w')"
    and b: "1000 = clock ?w \<longrightarrow>
             wait_for_completion ex_client ''job-1'' 300 5 ?w = Some (Inr (ex_payload ''completed''), w')"
    and c: "sent w' = sent ?w @ replicate 2 (status_request ex_client ''job-1'')"
    and d: "clock w' = clock ?w + int (elapsed (net ?w (length (sent ?w)))) + 5
                         + int (elapsed (net ?w (length (sent ?w) + 1)))"
    by blast
  from b start have b': "wait_for_completion ex_client ''job-1'' 300 5 ?w
                           = Some (Inr (ex_payload ''completed''), w')"
    by blast
  from c have c': "sent w' = replicate 2 (status_request ex_client ''job-1'')"
    by (simp add: none)
  from d have d': "clock w' = 1005"
    by (simp add: quick start [symmetric])
  from a b' c' d' have "\<exists>w'. wait_loop ex_client ''job-1'' 300 5 1000 ?w
               = Some (Inr (ex_payload ''completed''), w')
            \<and> wait_for_completion ex_client ''job-1'' 300 5 ?w
               = Some (Inr (ex_payload ''completed''), w')
            \<and> sent w' = replicate 2 (status_request ex_client ''job-1'')
            \<and> clock w' = 1005"
    by blast
  with h1 h2 h3 h4 h5 h6 h7 show ?thesis by blast
qed

section \<open>Upload\<close>

lemma http_exchange_eq:
  "http_exchange rq w =
     (net w (length (sent w)),
      w\<lparr>clock := clock w + int (elapsed (net w (length (sent w)))), sent := sent w @ [rq]\<rparr>)"
  by (simp add: http_exchange_def Let_def)

text \<open>
  C6. An upload of a path that does not exist raises \<^verbatim>\<open>FileNotFoundError\<close>, and an
  upload of an existing path whose suffix, in lower case, is neither \<^verbatim>\<open>.mid\<close> nor
  \<^verbatim>\<open>.midi\<close> raises \<^verbatim>\<open>ValueError\<close>; in both cases the world is returned as it
  was, so no request has been sent.
\<close>

theorem upload_midi_rejects_before_network:
  "(\<not> path_exists w midi_path \<longrightarrow>
      upload_midi self midi_path title style tags w
        = (Inl (FileNotFoundError (''MIDI file not found: '' @ midi_path)), w))
   \<and> (path_exists w midi_path \<and> lower (path_suffix midi_path) \<notin> {''.mid'', ''.midi''} \<longrightarrow>
      upload_midi self midi_path title style tags w
        = (Inl (ValueError ''File must be a MIDI file (.mid or .midi)''), w))"
  by (simp add: upload_midi_def)

theorem upload_midi_rejects_before_network_witness:
  "\<not> path_exists (ex_world ex_running) ''missing.mid''
   \<and> upload_midi ex_client ''missing.mid'' None None None (ex_world ex_running)
        = (Inl (FileNotFoundError (''MIDI file not found: '' @ ''missing.mid'')), ex_world ex_running)
   \<and> path_exists (ex_world ex_running) ''notes.txt''
   \<and> lower (path_suffix ''notes.txt'') \<notin> {''.mid'', ''.midi''}
   \<and> upload_midi ex_client ''notes.txt'' None None None (ex_world ex_running)
        = (Inl (ValueError ''File must be a MIDI file (.mid or .midi)''), ex_world ex_running)"
proof -
  have h1: "\<not> path_exists (ex_world ex_running) ''missing.mid''"
    by (simp add: path_exists_def ex_world_def path_str_def path_root_def path_parts_def)
  have h2: "path_exists (ex_world ex_running) ''notes.txt''"
    by (simp add: path_exists_def ex_world_def path_str_def path_root_def path_parts_def)
  have h3: "lower (path_suffix ''notes.txt'') \<notin> {''.mid'', ''.midi''}"
    by (simp add: path_suffix_def path_name_def path_parts_def lower_def lower_char_def)
  from upload_midi_rejects_before_network [of "ex_world ex_running" "''missing.mid''" ex_client None None None]
    upload_midi_rejects_before_network [of "ex_world ex_running" "''notes.txt''" ex_client None None None]
  show ?thesis using h1 h2 h3 by blast
qed

text \<open>
  An upload that passes the checks and reads the file sends one multipart POST; its form
  fields are the truthy ones among title, style and tags, in that order.
\<close>

lemma upload_midi_sends:
  assumes "path_exists w midi_path"
    and "lower (path_suffix midi_path) \<in> {''.mid'', ''.midi''}"
    and "open_rb (path_str midi_path) w = Inr midi_data"
  shows "snd (upload_midi self midi_path title style tags w) =
         w\<lparr>clock := clock w + int (elapsed (net w (length (sent w)))),
           sent := sent w @
             [post_req (base_url self @ ''/uploads/midi'')
                [(''Authorization'', ''Bearer '' @ api_key self)]
                (Multipart [(''midi_file'', (path_name midi_path, midi_data, ''audio/midi''))]
                   ((if truthy title then [(''title'', the title)] else []) @
                    (if truthy style then [(''style'', the style)] else []) @
                    (if truthy tags then [(''tags'', json_dumps (JList (the tags)))] else [])))]\<rparr>"
  using assms
  by (simp add: upload_midi_def requests_post_def http_exchange_eq Let_def)

text \<open>
  C8. An upload with a non-empty tag list sends, among the form fields of its one
  request, exactly one field named \<^verbatim>\<open>tags\<close>, whose value is the string
  \<^verbatim>\<open>json.dumps\<close> gives for the list; for the tags a and b that string is
  \<^verbatim>\<open>["a", "b"]\<close>.
\<close>

theorem upload_midi_tags_one_json_field:
  assumes "path_exists w midi_path"
    and "lower (path_suffix midi_path) \<in> {''.mid'', ''.midi''}"
    and "open_rb (path_str midi_path) w = Inr midi_data"
    and "tags \<noteq> []"
  shows "\<exists>data. sent (snd (upload_midi self midi_path title style (Some tags) w)) =
           sent w @ [post_req (base_url self @ ''/uploads/midi'')
                       [(''Authorization'', ''Bearer '' @ api_key self)]
                       (Multipart [(''midi_file'', (path_name midi_path, midi_data, ''audio/midi''))] data)]
         \<and> filter (\<lambda>kv. fst kv = ''tags'') data = [(''tags'', json_dumps (JList tags))]"
  using assms(4) by (simp add: upload_midi_sends [OF assms(1-3)] post_req_def)

theorem upload_midi_tags_one_json_field_witness:
  \<open>path_exists (ex_world ex_running) ''song.mid''
   \<and> lower (path_suffix ''song.mid'') \<in> {''.mid'', ''.midi''}
   \<and> open_rb (path_str ''song.mid'') (ex_world ex_running) = Inr ''MThd''
   \<and> [JStr ''a'', JStr ''b''] \<noteq> []
   \<and> json_dumps (JList [JStr ''a'', JStr ''b'']) = ''["a", "b"]''
   \<and> (\<exists>data. sent (snd (upload_midi ex_client ''song.mid'' None None
                          (Some [JStr ''a'', JStr ''b'']) (ex_world ex_running))) =
           sent (ex_world ex_running) @
             [post_req (base_url ex_client @ ''/uploads/midi'')
                [(''Authorization'', ''Bearer '' @ api_key ex_client)]
                (Multipart [(''midi_file'', (path_name ''song.mid'', ''MThd'', ''audio/midi''))] data)]
         \<and> filter (\<lambda>kv. fst kv = ''tags'') data
             = [(''tags'', json_dumps (JList [JStr ''a'', JStr ''b'']))])\<close>
proof -
  have h1: "path_exists (ex_world ex_running) ''song.mid''"
    by (simp add: path_exists_def ex_world_def path_str_def path_root_def path_parts_def)
  have h2: "lower (path_suffix ''song.mid'') \<in> {''.mid'', ''.midi''}"
    by (simp add: path_suffix_def path_name_def path_parts_def lower_def lower_char_def)
  have h3: "open_rb (path_str ''song.mid'') (ex_world ex_running) = Inr ''MThd''"
    by (simp add: open_rb_def ex_world_def path_str_def path_root_def path_parts_def)
  have h4: "[JStr ''a'', JStr ''b''] \<noteq> []" by simp
  have h5: \<open>json_dumps (JList [JStr ''a'', JStr ''b'']) = ''["a", "b"]''\<close>
    by (simp add: json_dumps_str_def json_escape_char_def)
  from upload_midi_tags_one_json_field [OF h1 h2 h3 h4, of ex_client None None]
  show ?thesis using h1 h2 h3 h4 h5 by blast
qed

text \<open>
  C10. The form of an upload has exactly the keys among title, style and tags whose
  arguments are truthy, and an upload with a falsy argument (an empty string, an empty
  list) behaves as the upload with that argument left out.
\<close>

theorem upload_midi_omits_falsy_fields:
  assumes "path_exists w midi_path"
    and "lower (path_suffix midi_path) \<in> {''.mid'', ''.midi''}"
    and "open_rb (path_str midi_path) w = Inr midi_data"
  shows "(\<exists>data. sent (snd (upload_midi self midi_path title style tags w)) =
           sent w @ [post_req (base_url self @ ''/uploads/midi'')
                       [(''Authorization'', ''Bearer '' @ api_key self)]
                       (Multipart [(''midi_file'', (path_name midi_path, midi_data, ''audio/midi''))] data)]
           \<and> map fst data =
               (if truthy title then [''title''] else []) @
               (if truthy style then [''style''] else []) @
               (if truthy tags then [''tags''] else []))
         \<and> upload_midi self midi_path title style tags w =
             upload_midi self midi_path (if truthy title then title else None)
               (if truthy style then style else None) (if truthy tags then tags else None) w"
proof -
  have "upload_midi self midi_path title style tags w =
          upload_midi self midi_path (if truthy title then title else None)
            (if truthy style then style else None) (if truthy tags then tags else None) w"
    by (simp add: upload_midi_def Let_def split: sum.splits)
  then show ?thesis
    by (simp add: upload_midi_sends [OF assms] post_req_def)
qed

theorem upload_midi_omits_falsy_fields_witness:
  "path_exists (ex_world ex_running) ''song.mid''
   \<and> lower (path_suffix ''song.mid'') \<in> {''.mid'', ''.midi''}
   \<and> open_rb (path_str ''song.mid'') (ex_world ex_running) = Inr ''MThd''
   \<and> (\<exists>data. sent (snd (upload_midi ex_client ''song.mid'' (Some []) (Some ''jazz'') (Some [])
                          (ex_world ex_running))) =
           sent (ex_world ex_running) @
             [post_req (base_url ex_client @ ''/uploads/midi'')
                [(''Authorization'', ''Bearer '' @ api_key ex_client)]
                (Multipart [(''midi_file'', (path_name ''song.mid'', ''MThd'', ''audio/midi''))] data)]
           \<and> map fst data = [''style''])
   \<and> upload_midi ex_client ''song.mid'' (Some []) (Some ''jazz'') (Some []) (ex_world ex_running)
       = upload_midi ex_client ''song.mid'' None (Some ''jazz'') None (ex_world ex_running)"
proof -
  have h1: "path_exists (ex_world ex_running) ''song.mid''"
    by (simp add: path_exists_def ex_world_def path_str_def path_root_def path_parts_def)
  have h2: "lower (path_suffix ''song.mid'') \<in> {''.mid'', ''.midi''}"
    by (simp add: path_suffix_def path_name_def path_parts_def lower_def lower_char_def)
  have h3: "open_rb (path_str ''song.mid'') (ex_world ex_running) = Inr ''MThd''"
    by (simp add: open_rb_def ex_world_def path_str_def path_root_def path_parts_def)
  from upload_midi_omits_falsy_fields [OF h1 h2 h3, of ex_client "Some []" "Some ''jazz''" "Some []"]
  obtain data where
    rq: "sent (snd (upload_midi ex_client ''song.mid'' (Some []) (Some ''jazz'') (Some [])
                      (ex_world ex_running))) =
           sent (ex_world ex_running) @
             [post_req (base_url ex_client @ ''/uploads/midi'')
                [(''Authorization'', ''Bearer '' @ api_key ex_client)]
                (Multipart [(''midi_file'', (path_name ''song.mid'', ''MThd'', ''audio/midi''))] data)]"
    and keys: "map fst data =
               (if truthy (Some ([] :: string)) then [''title''] else []) @
               (if truthy (Some ''jazz'') then [''style''] else []) @
               (if truthy (Some ([] :: json list)) then [''tags''] else [])"
    and same: "upload_midi ex_client ''song.mid'' (Some []) (Some ''jazz'') (Some []) (ex_world ex_running) =
               upload_midi ex_client ''song.mid'' (if truthy (Some ([] :: string)) then Some [] else None)
                 (if truthy (Some ''jazz'') then Some ''jazz'' else None)
                 (if truthy (Some ([] :: json list)) then Some [] else None) (ex_world ex_running)"
    by blast
  from keys have keys': "map fst data = [''style'']" by simp
  from same have same': "upload_midi ex_client ''song.mid'' (Some []) (Some ''jazz'') (Some []) (ex_world ex_running)
       = upload_midi ex_client ''song.mid'' None (Some ''jazz'') None (ex_world ex_running)"
    by simp
  from rq keys' have sends:
    "\<exists>data. sent (snd (upload_midi ex_client ''song.mid'' (Some []) (Some ''jazz'') (Some [])
                          (ex_world ex_running))) =
           sent (ex_world ex_running) @
             [post_req (base_url ex_client @ ''/uploads/midi'')
                [(''Authorization'', ''Bearer '' @ api_key ex_client)]
                (Multipart [(''midi_file'', (path_name ''song.mid'', ''MThd'', ''audio/midi''))] data)]
           \<and> map fst data = [''style'']"
    by (intro exI [of _ data] conjI)
  show ?thesis by (intro conjI h1 h2 h3 sends same')
qed

section \<open>Generate\<close>

text \<open>
  C7. When the upload goes through (the file is there, has a MIDI suffix and can be read,
  and the service answers the upload with status 200 and a JSON object), generating sends
  exactly two requests: first the upload of the file with no form fields, then one POST
  to \<^verbatim>\<open>{base}/generate\<close> whose JSON body holds \<^verbatim>\<open>midi_id\<close>, \<^verbatim>\<open>style\<close>,
  \<^verbatim>\<open>duration\<close> and, only for a non-empty prompt, \<^verbatim>\<open>prompt\<close>. The \<^verbatim>\<open>midi_id\<close> sent is
  the one of the upload's answer, and \<^verbatim>\<open>None\<close> (JSON null) when that answer has no such
  key: the call goes on all the same, and its outcome is that of the second exchange.
\<close>

theorem generate_from_midi_uploads_then_posts:
  assumes "path_exists w midi_path"
    and "lower (path_suffix midi_path) \<in> {''.mid'', ''.midi''}"
    and "open_rb (path_str midi_path) w = Inr midi_data"
    and "status_code (net w (length (sent w))) = 200"
    and "response_json (net w (length (sent w))) = Inr (JObj upload_result)"
  shows "sent (snd (generate_from_midi self midi_path prompt style duration w)) =
           sent w @
           [post_req (base_url self @ ''/uploads/midi'')
              [(''Authorization'', ''Bearer '' @ api_key self)]
              (Multipart [(''midi_file'', (path_name midi_path, midi_data, ''audio/midi''))] []),
            post_req (base_url self @ ''/generate'') (headers self)
              (JsonBody (JObj
                 ([(''midi_id'', (case map_of upload_result ''midi_id'' of None \<Rightarrow> JNull | Some v \<Rightarrow> v)),
                   (''style'', JStr style), (''duration'', JInt duration)] @
                  (if truthy prompt then [(''prompt'', JStr (the prompt))] else []))))]
         \<and> fst (generate_from_midi self midi_path prompt style duration w) =
             (let r = net w (length (sent w) + 1) in
              if status_code r \<noteq> 200
              then Inl (Exception (''Generation failed: '' @ str_int (status_code r) @ '' - '' @ resp_text r))
              else response_json r)"
proof -
  have "fst (upload_midi self midi_path None None None w) = Inr (JObj upload_result)"
    using assms
    by (simp add: upload_midi_def requests_post_def http_exchange_eq Let_def)
  then obtain w1 where up: "upload_midi self midi_path None None None w = (Inr (JObj upload_result), w1)"
    by (cases "upload_midi self midi_path None None None w") simp
  have w1: "w1 = w\<lparr>clock := clock w + int (elapsed (net w (length (sent w)))),
                     sent := sent w @
                       [post_req (base_url self @ ''/uploads/midi'')
                          [(''Authorization'', ''Bearer '' @ api_key self)]
                          (Multipart [(''midi_file'', (path_name midi_path, midi_data, ''audio/midi''))] [])]\<rparr>"
    using upload_midi_sends [OF assms(1-3), of self None None None] up by simp
  show ?thesis
    by (simp add: generate_from_midi_def up w1 requests_post_def http_exchange_eq Let_def)
qed

theorem generate_from_midi_uploads_then_posts_witness:
  "path_exists (ex_world ex_accepting) ''song.mid''
   \<and> lower (path_suffix ''song.mid'') \<in> {''.mid'', ''.midi''}
   \<and> open_rb (path_str ''song.mid'')
        (ex_world ex_accepting) = Inr ''MThd''
   \<and> status_code (net (ex_world ex_accepting)
        (length (sent (ex_world ex_accepting)))) = 200
   \<and> response_json (net (ex_world ex_accepting)
        (length (sent (ex_world ex_accepting))))
       = Inr (JObj [(''ok'', JBool True)])
   \<and> sent (snd (generate_from_midi ex_client ''song.mid'' None ''pop'' 180
                   (ex_world ex_accepting))) =
         [post_req (base_url ex_client @ ''/uploads/midi'')
            [(''Authorization'', ''Bearer '' @ api_key ex_client)]
            (Multipart [(''midi_file'', (path_name ''song.mid'', ''MThd'', ''audio/midi''))] []),
          post_req (base_url ex_client @ ''/generate'') (headers ex_client)
            (JsonBody (JObj [(''midi_id'', JNull), (''style'', JStr ''pop''), (''duration'', JInt 180)]))]
   \<and> fst (generate_from_midi ex_client ''song.mid'' None ''pop'' 180
             (ex_world ex_accepting))
       = Inr (JObj [(''ok'', JBool True)])"
proof -
  let ?w = "ex_world ex_accepting"
  have h1: "path_exists ?w ''song.mid''"
    by (simp add: path_exists_def ex_world_def path_str_def path_root_def path_parts_def)
  have h2: "lower (path_suffix ''song.mid'') \<in> {''.mid'', ''.midi''}"
    by (simp add: path_suffix_def path_name_def path_parts_def lower_def lower_char_def)
  have h3: "open_rb (path_str ''song.mid'') ?w = Inr ''MThd''"
    by (simp add: open_rb_def ex_world_def path_str_def path_root_def path_parts_def)
  have code: "status_code (net ?w k) = 200"
    and parsed: "response_json (net ?w k) = Inr (JObj [(''ok'', JBool True)])" for k
    by (simp_all add: ex_world_def ex_accepting_def ex_response_def response_json_def)
  have h4: "status_code (net ?w (length (sent ?w))) = 200"
    by (rule code)
  have h5: "response_json (net ?w (length (sent ?w))) = Inr (JObj [(''ok'', JBool True)])"
    by (rule parsed)
  have s: "sent ?w = []"
    by (simp add: ex_world_def)
  from generate_from_midi_uploads_then_posts [OF h1 h2 h3 h4 h5, of ex_client None "''pop''" 180]
  have c1: "sent (snd (generate_from_midi ex_client ''song.mid'' None ''pop'' 180 ?w)) =
         [post_req (base_url ex_client @ ''/uploads/midi'')
            [(''Authorization'', ''Bearer '' @ api_key ex_client)]
            (Multipart [(''midi_file'', (path_name ''song.mid'', ''MThd'', ''audio/midi''))] []),
          post_req (base_url ex_client @ ''/generate'') (headers ex_client)
            (JsonBody (JObj [(''midi_id'', JNull), (''style'', JStr ''pop''), (''duration'', JInt 180)]))]"
    and c2: "fst (generate_from_midi ex_client ''song.mid'' None ''pop'' 180 ?w)
       = Inr (JObj [(''ok'', JBool True)])"
    by (simp_all add: s code parsed)
  show ?thesis by (intro conjI h1 h2 h3 h4 h5 c1 c2)
qed

section \<open>Download\<close>

lemma download_result_remote_error:
  assumes "status_code (net w (length (sent w))) \<noteq> 200"
  shows "download_result self result_url output_path w =
           (Inl (Exception (''Download failed: '' @ str_int (status_code (net w (length (sent w)))))),
            w\<lparr>clock := clock w + int (elapsed (net w (length (sent w)))),
              sent := sent w @ [get_req result_url [] True]\<rparr>)"
  using assms by (simp add: download_result_def requests_get_def http_exchange_eq)

text \<open>
  C9. A download that is answered with a status other than 200 raises and leaves every
  file as it was: the output path is opened only after the status check.
\<close>

theorem download_result_failure_keeps_files:
  assumes "status_code (net w (length (sent w))) \<noteq> 200"
  shows "fs (snd (download_result self result_url output_path w)) = fs w
         \<and> (\<exists>msg. fst (download_result self result_url output_path w) = Inl (Exception msg))"
  by (simp add: download_result_remote_error [OF assms])

theorem download_result_failure_keeps_files_witness:
  "status_code (net (ex_world ex_expired)
                  (length (sent (ex_world ex_expired)))) \<noteq> 200
   \<and> fs (snd (download_result ex_client ''https://cdn.suno.ai/a.mp3'' ''out.mp3''
                 (ex_world ex_expired)))
       = fs (ex_world ex_expired)
   \<and> fs (snd (download_result ex_client ''https://cdn.suno.ai/a.mp3'' ''out.mp3''
                 (ex_world ex_expired))) ''out.mp3''
       = Some (File ''old'')
   \<and> (\<exists>msg. fst (download_result ex_client ''https://cdn.suno.ai/a.mp3'' ''out.mp3''
                 (ex_world ex_expired)) = Inl (Exception msg))"
proof -
  let ?w = "ex_world ex_expired"
  have h: "status_code (net ?w (length (sent ?w))) \<noteq> 200"
    by (simp add: ex_world_def ex_expired_def ex_response_def)
  have old: "fs ?w ''out.mp3'' = Some (File ''old'')"
    by (simp add: ex_world_def)
  from download_result_failure_keeps_files [OF h, of ex_client "''https://cdn.suno.ai/a.mp3''" "''out.mp3''"]
  show ?thesis using h old by simp
qed

text \<open>
  A download answered with 200 replaces the content of the output path by the body of the
  response, whatever the chunk size.
\<close>

lemma concat_iter_content:
  "0 < n \<Longrightarrow> concat (iter_content n bs) = bs"
proof (induction n bs rule: iter_content.induct)
  case (1 n bs)
  then show ?case
    by (subst iter_content.simps) simp
qed

lemma foldl_file_write:
  assumes "fs w (path_str p) = Some (File acc)"
  shows "fs (foldl (\<lambda>wa chunk. file_write p chunk wa) w chunks) =
           (fs w)(path_str p \<mapsto> File (acc @ concat chunks))"
  using assms
proof (induction chunks arbitrary: w acc)
  case Nil
  then show ?case by (simp add: fun_upd_idem)
next
  case (Cons c cs)
  have step: "file_write p c w = w\<lparr>fs := (fs w)(path_str p \<mapsto> File (acc @ c))\<rparr>"
    using Cons.prems by (simp add: file_write_def)
  have "fs (file_write p c w) (path_str p) = Some (File (acc @ c))"
    by (simp add: step)
  from Cons.IH [OF this]
  have "fs (foldl (\<lambda>wa chunk. file_write p chunk wa) (file_write p c w) cs) =
          (fs (file_write p c w))(path_str p \<mapsto> File ((acc @ c) @ concat cs))" .
  then show ?case
    by (simp add: step)
qed

lemma download_result_ok:
  assumes "status_code (net w (length (sent w))) = 200"
    and "output_path \<noteq> []"
    and "fs w (path_parent output_path) = Some Dir"
    and "fs w (path_str output_path) \<noteq> Some Dir"
  shows "fst (download_result self result_url output_path w) = Inr ()"
    and "fs (snd (download_result self result_url output_path w)) =
           (fs w)(path_str output_path \<mapsto> File (resp_text (net w (length (sent w)))))"
proof -
  define w1 where "w1 = w\<lparr>clock := clock w + int (elapsed (net w (length (sent w)))),
                            sent := sent w @ [get_req result_url [] True]\<rparr>"
  define w2 where "w2 = w1\<lparr>fs := (fs w1)(path_str output_path \<mapsto> File [])\<rparr>"
  have opened: "open_wb output_path w1 = (Inr (), w2)"
    using assms(2-4) by (auto simp: open_wb_def w1_def w2_def split: option.splits node.splits)
  have run: "download_result self result_url output_path w =
               (Inr (), foldl (\<lambda>wa chunk. file_write output_path chunk wa) w2
                          (iter_content 8192 (resp_text (net w (length (sent w))))))"
    using assms(1) by (simp add: download_result_def requests_get_def http_exchange_eq opened [unfolded w1_def])
  show "fst (download_result self result_url output_path w) = Inr ()"
    by (simp add: run)
  have "fs w2 (path_str output_path) = Some (File [])"
    by (simp add: w2_def)
  from foldl_file_write [OF this]
  show "fs (snd (download_result self result_url output_path w)) =
           (fs w)(path_str output_path \<mapsto> File (resp_text (net w (length (sent w)))))"
    by (simp add: run concat_iter_content w2_def w1_def)
qed

text \<open>
  A download to a path under a directory that is not there raises and creates nothing, and
  two spellings of the output path reach the same file.
\<close>

lemma download_result_missing_directory:
  "fst (download_result ex_client ''https://cdn.suno.ai/a.mp3'' ''nodir/out.mp3''
          (ex_world ex_accepting)) = Inl (FileNotFoundError ''nodir/out.mp3'')
   \<and> fs (snd (download_result ex_client ''https://cdn.suno.ai/a.mp3'' ''nodir/out.mp3''
          (ex_world ex_accepting))) ''nodir/out.mp3'' = None"
  by code_simp

lemma download_result_dot_slash:
  "fs (snd (download_result ex_client ''https://cdn.suno.ai/a.mp3'' ''./out.mp3''
          (ex_world ex_accepting))) ''out.mp3'' = Some (File ''{}'')"
  by code_simp

section \<open>Answers other than 200\<close>

text \<open>
  Upload, generate and the status check raise an exception whose message holds the status
  code and the body of the response, after the one request they sent; the polling loop
  hands the exception of a status check on without polling again.
\<close>

lemma upload_midi_remote_error:
  assumes "path_exists w midi_path"
    and "lower (path_suffix midi_path) \<in> {''.mid'', ''.midi''}"
    and "open_rb (path_str midi_path) w = Inr midi_data"
    and "status_code (net w (length (sent w))) \<noteq> 200"
  shows "fst (upload_midi self midi_path title style tags w) =
           Inl (Exception (''Upload failed: '' @ str_int (status_code (net w (length (sent w))))
                             @ '' - '' @ resp_text (net w (length (sent w)))))
         \<and> length (sent (snd (upload_midi self midi_path title style tags w))) = length (sent w) + 1"
  using assms
  by (simp add: upload_midi_sends [OF assms(1-3)])
     (simp add: upload_midi_def requests_post_def http_exchange_eq Let_def)

lemma get_generation_status_remote_error:
  assumes "status_code (net w (length (sent w))) \<noteq> 200"
  shows "get_generation_status self job_id w =
           (Inl (Exception (''Status check failed: '' @ str_int (status_code (net w (length (sent w))))
                              @ '' - '' @ resp_text (net w (length (sent w))))),
            after_poll self job_id w)"
  using assms by (simp add: get_generation_status_eq Let_def)

lemma wait_loop_remote_error:
  assumes "clock w - start_time < timeout"
    and "status_code (net w (length (sent w))) \<noteq> 200"
  shows "wait_loop self job_id timeout poll_interval start_time w =
           Some (Inl (Exception (''Status check failed: '' @ str_int (status_code (net w (length (sent w))))
                                   @ '' - '' @ resp_text (net w (length (sent w))))),
                 after_poll self job_id w)"
  using assms
  by (subst wait_loop.simps)
     (simp add: get_generation_status_remote_error time_time_def)

text \<open>
  C1, at a download answered with 404: the exception raised is
  \<^verbatim>\<open>Exception('Download failed: 404')\<close> whatever the body of the response was, while an
  upload and a status check answered the same way put the body in the message.
\<close>

theorem download_result_error_drops_body:
  "fst (download_result ex_client ''https://cdn.suno.ai/a.mp3'' ''out.mp3''
          (ex_world ex_expired))
     = Inl (Exception ''Download failed: 404'')
   \<and> fst (download_result ex_client ''https://cdn.suno.ai/a.mp3'' ''out.mp3''
          (ex_world ex_gone))
     = Inl (Exception ''Download failed: 404'')
   \<and> fst (upload_midi ex_client ''song.mid'' None None None
          (ex_world ex_expired))
     = Inl (Exception ''Upload failed: 404 - link expired'')
   \<and> fst (get_generation_status ex_client ''job-1''
          (ex_world ex_expired))
     = Inl (Exception ''Status check failed: 404 - link expired'')"
  by code_simp

end
